theory Spec2Isabelle
  imports Main
begin

section \<open>Python values, exceptions and the data of the authorizer\<close>

text \<open>
  The embedding follows \<^verbatim>\<open>src/lib/osml/osml_authorizer/lambda/lambda_function.py\<close>.
  A Python \<^verbatim>\<open>str\<close> is a \<^typ>\<open>string\<close> whose characters are the code points below 256;
  a raised exception is the \<open>Inl\<close> of a sum, a returned value its \<open>Inr\<close>. The
  \<^verbatim>\<open>print\<close> calls of the source write to the log only and are left out.
\<close>

datatype jvalue =
    JNull
  | JBool bool
  | JNum int
  | JStr string
  | JArr "jvalue list"
  | JObj "(string \<times> jvalue) list"

datatype exn =
    ValueError string
  | KeyError string
  | TypeError
  | JSONDecodeError
  | RequestException string
  | OSError string
  | PyJWTError string
  | OtherError string

text \<open>
  An exception is kept by its class, with its message where the source or the library
  call gives one; the message of a \<^verbatim>\<open>TypeError\<close> raised by the interpreter differs with
  the type of the operand and is left out.
\<close>

text \<open>
  The Lambda event: the two entries the handler reads, \<^verbatim>\<open>event["headers"]\<close> (a dict, given
  by its items in insertion order, so the names are distinct) and \<^verbatim>\<open>event["methodArn"]\<close>.
\<close>

record event =
  headers :: "(string \<times> string) list"
  methodArn :: string

record statement =
  Action :: string
  Effect :: string
  Resource :: string

record policy_document =
  Version :: string
  Statement :: "statement list"

text \<open>
  The returned dict. \<open>policy_context\<close> is the entry \<^verbatim>\<open>"context"\<close>; \<open>None\<close> when the dict has
  no such key.
\<close>

record policy =
  principalId :: jvalue
  policyDocument :: policy_document
  policy_context :: "(string \<times> jvalue) list option"

section \<open>The regular expression of \<^verbatim>\<open>get_id_token\<close>\<close>

text \<open>
  A backtracking matcher in the manner of Python's \<^verbatim>\<open>re\<close>: matching a pattern against a
  state (the text captured by group 1 so far, the input left) gives every way to match, in
  the order the engine tries them; \<^verbatim>\<open>re.match\<close> takes the first and does not look at what
  is left of the input.
\<close>

datatype regex =
    Lit string
  | Cls "char \<Rightarrow> bool"
  | Plus "char \<Rightarrow> bool"
  | Opt regex
  | Grp regex
  | Cat regex regex

text \<open>\<^verbatim>\<open>[...]+\<close> is greedy: after a character of the class, taking more is tried first.\<close>

fun plus_ends :: "(char \<Rightarrow> bool) \<Rightarrow> string \<Rightarrow> string list" where
  "plus_ends P [] = []"
| "plus_ends P (c # s) = (if P c then plus_ends P s @ [s] else [])"

fun run :: "regex \<Rightarrow> string option \<times> string \<Rightarrow> (string option \<times> string) list" where
  "run (Lit w) (g, s) = (if take (length w) s = w then [(g, drop (length w) s)] else [])"
| "run (Cls P) (g, s) = (case s of [] \<Rightarrow> [] | c # t \<Rightarrow> if P c then [(g, t)] else [])"
| "run (Plus P) (g, s) = map (Pair g) (plus_ends P s)"
| "run (Opt r) (g, s) = run r (g, s) @ [(g, s)]"
| "run (Grp r) (g, s) =
     map (\<lambda>(_, t). (Some (take (length s - length t) s), t)) (run r (g, s))"
| "run (Cat a b) (g, s) = concat (map (run b) (run a (g, s)))"

text \<open>
  \<^verbatim>\<open>re.match(pattern, s)\<close>: \<open>None\<close> when nothing matches at the start of \<open>s\<close>, else the
  match object, of which only \<^verbatim>\<open>group(1)\<close> is kept (\<open>None\<close> when the group took no part).
\<close>

definition re_match :: "regex \<Rightarrow> string \<Rightarrow> string option option" where
  "re_match r s = (case run r (None, s) of [] \<Rightarrow> None | (g, _) # _ \<Rightarrow> Some g)"

text \<open>\<^verbatim>\<open>[A-Za-z0-9-_]\<close>: the three ranges, and the two literals \<^verbatim>\<open>-\<close> and \<^verbatim>\<open>_\<close>.\<close>

definition tok_char :: "char \<Rightarrow> bool" where
  "tok_char c =
     (let n = (of_char c :: nat)
      in (65 \<le> n \<and> n \<le> 90) \<or> (97 \<le> n \<and> n \<le> 122) \<or> (48 \<le> n \<and> n \<le> 57)
         \<or> c = CHR ''-'' \<or> c = CHR ''_'')"

text \<open>\<^verbatim>\<open>\s\<close> on a \<^verbatim>\<open>str\<close> pattern: the Unicode whitespace, here its code points below 256.\<close>

definition is_space :: "char \<Rightarrow> bool" where
  "is_space c =
     (let n = (of_char c :: nat)
      in (9 \<le> n \<and> n \<le> 13) \<or> (28 \<le> n \<and> n \<le> 32) \<or> n = 133 \<or> n = 160)"

text \<open>\<^verbatim>\<open>(?:Bearer\s)?([A-Za-z0-9-_]+\.[A-Za-z0-9-_]+\.[A-Za-z0-9-_]+)\<close>\<close>

definition pattern :: regex where
  "pattern =
     Cat (Opt (Cat (Lit ''Bearer'') (Cls is_space)))
         (Grp (Cat (Plus tok_char) (Cat (Lit ''.'')
              (Cat (Plus tok_char) (Cat (Lit ''.'') (Plus tok_char))))))"

section \<open>\<^verbatim>\<open>get_id_token\<close>\<close>

text \<open>
  \<^verbatim>\<open>str.lower\<close> on code points below 256: the ASCII capitals and the Latin-1 capitals
  (\<^verbatim>\<open>U+00C0\<close> to \<^verbatim>\<open>U+00DE\<close> but the multiplication sign) move up by 32.
\<close>

definition lower_char :: "char \<Rightarrow> char" where
  "lower_char c =
     (let n = (of_char c :: nat)
      in if (65 \<le> n \<and> n \<le> 90) \<or> (192 \<le> n \<and> n \<le> 222 \<and> n \<noteq> 215)
         then char_of (n + 32) else c)"

definition lower :: "string \<Rightarrow> string" where
  "lower s = map lower_char s"

text \<open>
  \<^verbatim>\<open>{ k.lower(): v for k, v in event["headers"].items() }\<close>: a later item overwrites an
  earlier one of the same lowered name.
\<close>

definition normalized_headers :: "event \<Rightarrow> string \<Rightarrow> string option" where
  "normalized_headers ev = fold (\<lambda>(k, v) m. m(lower k \<mapsto> v)) (headers ev) Map.empty"

text \<open>The result is \<^verbatim>\<open>auth_token_match.group(1)\<close>, a \<^verbatim>\<open>str\<close> or \<^verbatim>\<open>None\<close>.\<close>

definition get_id_token :: "event \<Rightarrow> exn + string option" where
  "get_id_token ev =
     (case normalized_headers ev ''authorization'' of
        Some v \<Rightarrow>
          (case re_match pattern v of
             Some g \<Rightarrow> Inr g
           | None \<Rightarrow> Inl (ValueError ''Invalid authorization header format.''))
      | None \<Rightarrow> Inl (ValueError ''Missing authorization token.''))"

section \<open>\<^verbatim>\<open>generate_policy\<close>\<close>

definition generate_policy :: "string \<Rightarrow> string \<Rightarrow> jvalue \<Rightarrow> policy" where
  "generate_policy effect resource username =
     \<lparr> principalId = username,
       policyDocument =
         \<lparr> Version = ''2012-10-17'',
           Statement = [\<lparr> Action = ''execute-api:Invoke'', Effect = effect,
                          Resource = resource \<rparr>] \<rparr>,
       policy_context = None \<rparr>"

text \<open>The default of the keyword argument \<^verbatim>\<open>username\<close>.\<close>

definition default_username :: jvalue where
  "default_username = JStr ''username''"

section \<open>The world outside the function\<close>

text \<open>
  What \<^verbatim>\<open>id_token_is_valid\<close> reads and calls outside the repository: the process
  environment, the flag \<^verbatim>\<open>jwt.algorithms.has_crypto\<close>, \<^verbatim>\<open>requests.get\<close>,
  \<^verbatim>\<open>ssl.SSLContext.load_verify_locations\<close>, \<^verbatim>\<open>PyJWKClient.get_signing_key_from_jwt\<close>
  and \<^verbatim>\<open>jwt.decode\<close>. Each call is a parameter that returns a value or raises; the
  arguments the source passes are the arguments of the parameter.
\<close>

datatype verify = VerifyTrue | VerifyPath string

record response =
  status_code :: int
  content :: string
  json :: "exn + jvalue"

record ssl_context =
  verify_locations :: "string option"

record jwk_client =
  uri :: jvalue
  cache_jwk_set :: bool
  lifespan :: nat
  client_ssl_context :: ssl_context

record decode_options =
  verify_signature :: bool
  verify_exp :: bool
  verify_nbf :: bool
  verify_iat :: bool
  verify_aud :: bool
  verify_iss :: bool

record 'key world =
  environ :: "string \<Rightarrow> string option"
  has_crypto :: bool
  requests_get :: "string \<Rightarrow> verify \<Rightarrow> nat \<Rightarrow> exn + response"
  load_verify_locations :: "string \<Rightarrow> exn option"
  get_signing_key_from_jwt :: "jwk_client \<Rightarrow> string \<Rightarrow> exn + 'key"
  jwt_decode ::
    "string \<Rightarrow> 'key \<Rightarrow> string list \<Rightarrow> string \<Rightarrow> string \<Rightarrow> decode_options
       \<Rightarrow> exn + (string \<times> jvalue) list"

text \<open>\<^verbatim>\<open>os.environ.get(name, default)\<close>\<close>

definition environ_get :: "'key world \<Rightarrow> string \<Rightarrow> string \<Rightarrow> string" where
  "environ_get w name dflt = (case environ w name of Some v \<Rightarrow> v | None \<Rightarrow> dflt)"

text \<open>\<^verbatim>\<open>cert_path or True\<close>: \<^verbatim>\<open>None\<close> and the empty string are falsy.\<close>

definition cert_or_true :: "string option \<Rightarrow> verify" where
  "cert_or_true cert_path =
     (case cert_path of
        None \<Rightarrow> VerifyTrue
      | Some p \<Rightarrow> if p = [] then VerifyTrue else VerifyPath p)"

text \<open>\<^verbatim>\<open>f"{authority}/.well-known/openid-configuration"\<close>\<close>

definition discovery_url :: "string \<Rightarrow> string" where
  "discovery_url authority = authority @ ''/.well-known/openid-configuration''"

text \<open>
  \<^verbatim>\<open>oidc_metadata["jwks_uri"]\<close> on whatever \<^verbatim>\<open>resp.json()\<close> gave: a dict without the key
  raises \<^verbatim>\<open>KeyError\<close>, any other JSON value \<^verbatim>\<open>TypeError\<close>.
\<close>

fun getitem :: "jvalue \<Rightarrow> string \<Rightarrow> exn + jvalue" where
  "getitem (JObj kvs) k = (case map_of kvs k of Some v \<Rightarrow> Inr v | None \<Rightarrow> Inl (KeyError k))"
| "getitem _ k = Inl TypeError"

text \<open>
  \<^verbatim>\<open>ssl.create_default_context()\<close>, then \<^verbatim>\<open>ctx.load_verify_locations(cert_path)\<close> when
  \<^verbatim>\<open>cert_path\<close> is truthy.
\<close>

definition make_ssl_context :: "'key world \<Rightarrow> string option \<Rightarrow> exn + ssl_context" where
  "make_ssl_context w cert_path =
     (case cert_path of
        None \<Rightarrow> Inr \<lparr> verify_locations = None \<rparr>
      | Some p \<Rightarrow>
          if p = [] then Inr \<lparr> verify_locations = None \<rparr>
          else (case load_verify_locations w p of
                  Some e \<Rightarrow> Inl e
                | None \<Rightarrow> Inr \<lparr> verify_locations = Some p \<rparr>))"

definition decode_options_all :: decode_options where
  "decode_options_all =
     \<lparr> verify_signature = True, verify_exp = True, verify_nbf = True,
       verify_iat = True, verify_aud = True, verify_iss = True \<rparr>"

section \<open>\<^verbatim>\<open>id_token_is_valid\<close>\<close>

text \<open>The body of the \<^verbatim>\<open>try\<close> block, lines 94 to 114.\<close>

definition try_body ::
  "'key world \<Rightarrow> jvalue \<Rightarrow> string option \<Rightarrow> string \<Rightarrow> string \<Rightarrow> string
     \<Rightarrow> exn + (string \<times> jvalue) list" where
  "try_body w oidc_metadata cert_path id_token audience authority =
     (case make_ssl_context w cert_path of
        Inl e \<Rightarrow> Inl e
      | Inr ctx \<Rightarrow>
          (case getitem oidc_metadata ''jwks_uri'' of
             Inl e \<Rightarrow> Inl e
           | Inr u \<Rightarrow>
               (case get_signing_key_from_jwt w
                       \<lparr> uri = u, cache_jwk_set = True, lifespan = 360,
                         client_ssl_context = ctx \<rparr> id_token of
                  Inl e \<Rightarrow> Inl e
                | Inr signing_key \<Rightarrow>
                    jwt_decode w id_token signing_key [''RS256''] authority audience
                      decode_options_all)))"

text \<open>
  \<^verbatim>\<open>except jwt.exceptions.PyJWTError\<close>: that class and its subclasses give \<^verbatim>\<open>False\<close>, every
  other exception goes on to the caller. The result \<open>None\<close> is Python's \<^verbatim>\<open>False\<close>.
\<close>

definition except_PyJWTError ::
  "exn + (string \<times> jvalue) list \<Rightarrow> exn + (string \<times> jvalue) list option" where
  "except_PyJWTError r =
     (case r of
        Inr data \<Rightarrow> Inr (Some data)
      | Inl (PyJWTError m) \<Rightarrow> Inr None
      | Inl e \<Rightarrow> Inl e)"

text \<open>
  The first component lists the URLs the function itself fetched with \<^verbatim>\<open>requests.get\<close>,
  in order; the second is what it returns or raises.
\<close>

definition id_token_is_valid ::
  "'key world \<Rightarrow> string \<Rightarrow> string \<Rightarrow> string
     \<Rightarrow> string list \<times> (exn + (string \<times> jvalue) list option)" where
  "id_token_is_valid w id_token audience authority =
     (if \<not> has_crypto w then ([], Inr None)
      else
        let cert_path = environ w ''SSL_CERT_FILE'' in
        ([discovery_url authority],
         case requests_get w (discovery_url authority) (cert_or_true cert_path) 120 of
           Inl e \<Rightarrow> Inl e
         | Inr resp \<Rightarrow>
             if status_code resp \<noteq> 200 then Inr None
             else
               (case json resp of
                  Inl e \<Rightarrow> Inl e
                | Inr oidc_metadata \<Rightarrow>
                    except_PyJWTError
                      (try_body w oidc_metadata cert_path id_token audience authority))))"

section \<open>\<^verbatim>\<open>lambda_handler\<close>\<close>

text \<open>
  \<^verbatim>\<open>not id_token\<close> holds of \<^verbatim>\<open>None\<close> and of the empty string; the walrus test
  \<^verbatim>\<open>if jwt_data := ...\<close> fails on \<^verbatim>\<open>False\<close> and on the empty dict. \<^verbatim>\<open>jwt_data["sub"]\<close> raises
  \<^verbatim>\<open>KeyError\<close> when the key is missing.
\<close>

definition lambda_handler :: "'key world \<Rightarrow> event \<Rightarrow> exn + policy" where
  "lambda_handler w ev =
     (case get_id_token ev of
        Inl e \<Rightarrow> Inl e
      | Inr None \<Rightarrow> Inr (generate_policy ''Deny'' (methodArn ev) default_username)
      | Inr (Some id_token) \<Rightarrow>
          if id_token = []
          then Inr (generate_policy ''Deny'' (methodArn ev) default_username)
          else
            let authority = environ_get w ''AUTHORITY'' [];
                audience = environ_get w ''AUDIENCE'' []
            in (case snd (id_token_is_valid w id_token audience authority) of
                  Inl e \<Rightarrow> Inl e
                | Inr None \<Rightarrow> Inr (generate_policy ''Deny'' (methodArn ev) default_username)
                | Inr (Some jwt_data) \<Rightarrow>
                    if jwt_data = []
                    then Inr (generate_policy ''Deny'' (methodArn ev) default_username)
                    else
                      (case map_of jwt_data ''sub'' of
                         None \<Rightarrow> Inl (KeyError ''sub'')
                       | Some sub \<Rightarrow>
                           Inr ((generate_policy ''Allow'' (methodArn ev) sub)
                                  \<lparr> policy_context := Some [(''username'', sub)] \<rparr>))))"

section \<open>Hypotheses about the world, and concrete worlds\<close>

text \<open>
  Discovery and key resolution succeed for \<open>id_token\<close> and give \<open>signing_key\<close>: the
  crypto support is there, the discovery endpoint answers 200 with a body that parses, the
  TLS context is built, the metadata names a key-set URI, and the key client (built with
  the arguments of line 97) returns the key. These are the steps of \<^verbatim>\<open>id_token_is_valid\<close>
  before \<^verbatim>\<open>jwt.decode\<close>.
\<close>

definition key_resolved :: "'key world \<Rightarrow> string \<Rightarrow> string \<Rightarrow> 'key \<Rightarrow> bool" where
  "key_resolved w authority id_token signing_key =
     (has_crypto w \<and>
      (case requests_get w (discovery_url authority)
              (cert_or_true (environ w ''SSL_CERT_FILE'')) 120 of
         Inl e \<Rightarrow> False
       | Inr resp \<Rightarrow>
           status_code resp = 200 \<and>
           (case json resp of
              Inl e \<Rightarrow> False
            | Inr oidc_metadata \<Rightarrow>
                (case make_ssl_context w (environ w ''SSL_CERT_FILE'') of
                   Inl e \<Rightarrow> False
                 | Inr ctx \<Rightarrow>
                     (case getitem oidc_metadata ''jwks_uri'' of
                        Inl e \<Rightarrow> False
                      | Inr u \<Rightarrow>
                          get_signing_key_from_jwt w
                            \<lparr> uri = u, cache_jwk_set = True, lifespan = 360,
                              client_ssl_context = ctx \<rparr> id_token = Inr signing_key)))))"

text \<open>
  The allow-list of \<^verbatim>\<open>jwt.decode\<close>, a property of the library and not of this repository:
  when the option \<^verbatim>\<open>verify_signature\<close> is on, a token whose header declares an algorithm
  that is not among the \<^verbatim>\<open>algorithms\<close> passed is refused with a \<^verbatim>\<open>PyJWTError\<close>
  (\<^verbatim>\<open>InvalidAlgorithmError\<close>). With the option off the library does not look at the list,
  and nothing is required. \<open>declared_alg\<close> reads the \<^verbatim>\<open>alg\<close> entry of the token's header.
\<close>

definition honours_algorithms :: "(string \<Rightarrow> string option) \<Rightarrow> 'key world \<Rightarrow> bool" where
  "honours_algorithms declared_alg w =
     (\<forall>tok key algs iss aud opts a.
        verify_signature opts \<and> declared_alg tok = Some a \<and> a \<notin> set algs \<longrightarrow>
        (\<exists>m. jwt_decode w tok key algs iss aud opts = Inl (PyJWTError m)))"

text \<open>The number of fetches of \<open>url\<close> among the network calls \<open>calls\<close>.\<close>

definition fetches :: "string \<Rightarrow> string list \<Rightarrow> nat" where
  "fetches url calls = length (filter (\<lambda>u. u = url) calls)"

text \<open>
  A concrete world: the authority \<^verbatim>\<open>https://idp.example\<close>, the audience \<^verbatim>\<open>osml\<close>, a
  discovery endpoint that answers with the given status and body, a key client that finds
  the key of any token at the URI \<^verbatim>\<open>https://idp.example/jwks\<close>, and a \<^verbatim>\<open>jwt.decode\<close> that
  refuses the token when it is asked to verify the signature and the algorithm \<open>alg\<close> of
  the token is not allowed, and gives \<open>decoded\<close> otherwise.
\<close>

definition example_world ::
  "string \<Rightarrow> int \<Rightarrow> exn + jvalue \<Rightarrow> exn + (string \<times> jvalue) list \<Rightarrow> string world" where
  "example_world alg status body decoded =
     \<lparr> environ = Map.empty(''AUTHORITY'' \<mapsto> ''https://idp.example'', ''AUDIENCE'' \<mapsto> ''osml''),
       has_crypto = True,
       requests_get = (\<lambda>url v t.
         if url = ''https://idp.example/.well-known/openid-configuration''
         then Inr \<lparr> status_code = status, content = [], json = body \<rparr>
         else Inl (RequestException ''ConnectionError'')),
       load_verify_locations = (\<lambda>p. None),
       get_signing_key_from_jwt = (\<lambda>c tok.
         if uri c = JStr ''https://idp.example/jwks'' then Inr ''key-1''
         else Inl (PyJWTError ''PyJWKClientConnectionError'')),
       jwt_decode = (\<lambda>tok key algs iss aud opts.
         if verify_signature opts \<and> alg \<notin> set algs
         then Inl (PyJWTError ''InvalidAlgorithmError'') else decoded) \<rparr>"

definition example_metadata :: jvalue where
  "example_metadata =
     JObj [(''issuer'', JStr ''https://idp.example''),
           (''jwks_uri'', JStr ''https://idp.example/jwks'')]"

definition example_claims :: "(string \<times> jvalue) list" where
  "example_claims =
     [(''iss'', JStr ''https://idp.example''), (''aud'', JStr ''osml''),
      (''exp'', JNum 2000000000), (''sub'', JStr ''user-123'')]"

definition example_event :: "string \<Rightarrow> event" where
  "example_event v =
     \<lparr> headers = [(''Host'', ''api.example''), (''Authorization'', v)],
       methodArn = ''arn:aws:execute-api:us-east-1:123456789012:abcdef/prod/GET/resource'' \<rparr>"

section \<open>Lemmas about the matcher\<close>

lemma tok_char_not_dot: "tok_char c \<Longrightarrow> c \<noteq> CHR ''.''"
  by (auto simp: tok_char_def)

lemma not_tok_char_dot: "\<not> tok_char CHR ''.''"
  by (simp add: tok_char_def)

lemma tok_char_not_space: "tok_char c \<Longrightarrow> \<not> is_space c"
  by (auto simp: tok_char_def is_space_def Let_def)

lemma not_space_dot: "\<not> is_space CHR ''.''"
  by (simp add: is_space_def)

lemma plus_ends_shorter: "t \<in> set (plus_ends P s) \<Longrightarrow> length t < length s"
  by (induction s) (auto split: if_splits)

lemma run_not_longer: "(g', t) \<in> set (run r (g, s)) \<Longrightarrow> length t \<le> length s"
proof (induction r arbitrary: g s g' t)
  case (Lit w)
  then show ?case by (auto split: if_splits)
next
  case (Cls P)
  then show ?case by (auto split: list.splits if_splits)
next
  case (Plus P)
  then show ?case by (auto dest: plus_ends_shorter)
next
  case (Opt r)
  then show ?case by auto
next
  case (Grp r)
  then show ?case by auto
next
  case (Cat a b)
  from Cat.prems obtain g1 s1 where a: "(g1, s1) \<in> set (run a (g, s))"
    and b: "(g', t) \<in> set (run b (g1, s1))" by auto
  from Cat.IH(1)[OF a] Cat.IH(2)[OF b] show ?case by simp
qed

lemma run_plus_cat_shorter:
  assumes "(g', t) \<in> set (run (Cat (Plus P) r) (g, s))"
  shows "length t < length s"
proof -
  from assms obtain s1 where a: "s1 \<in> set (plus_ends P s)"
    and b: "(g', t) \<in> set (run r (g, s1))" by auto
  from plus_ends_shorter[OF a] run_not_longer[OF b] show ?thesis by simp
qed

lemma run_grp_plus_nonempty:
  assumes "(g', t) \<in> set (run (Grp (Cat (Plus P) r)) (g, s))"
  shows "\<exists>m. g' = Some m \<and> m \<noteq> []"
proof -
  from assms obtain g1 where a: "(g1, t) \<in> set (run (Cat (Plus P) r) (g, s))"
    and g': "g' = Some (take (length s - length t) s)" by auto
  from run_plus_cat_shorter[OF a] have "length t < length s" .
  then have "take (length s - length t) s \<noteq> []" by auto
  with g' show ?thesis by simp
qed

lemma run_cat_elem:
  "x \<in> set (run (Cat a b) st) \<Longrightarrow> \<exists>st' \<in> set (run a st). x \<in> set (run b st')"
  by (cases st) auto

text \<open>What \<^verbatim>\<open>group(1)\<close> holds after a match is never \<^verbatim>\<open>None\<close> and never empty.\<close>

lemma re_match_pattern_nonempty:
  assumes "re_match pattern v = Some g"
  shows "\<exists>m. g = Some m \<and> m \<noteq> []"
proof -
  from assms obtain rest t where r: "run pattern (None, v) = (g, t) # rest"
    by (auto simp: re_match_def split: list.splits)
  then have "(g, t) \<in> set (run pattern (None, v))" by simp
  then obtain st where "(g, t) \<in> set (run (Grp (Cat (Plus tok_char) (Cat (Lit ''.'')
              (Cat (Plus tok_char) (Cat (Lit ''.'') (Plus tok_char)))))) st)"
    unfolding pattern_def by (blast dest: run_cat_elem)
  then show ?thesis using run_grp_plus_nonempty by (cases st) blast
qed

lemma get_id_token_nonempty:
  "get_id_token ev = Inr g \<Longrightarrow> \<exists>m. g = Some m \<and> m \<noteq> []"
  by (auto simp: get_id_token_def split: option.splits dest: re_match_pattern_nonempty)

lemma plus_ends_then_dot:
  assumes F: "\<And>c u. tok_char c \<Longrightarrow> F (c # u) = []"
    and a: "list_all tok_char a" "a \<noteq> []"
  shows "concat (map F (plus_ends tok_char (a @ CHR ''.'' # t))) = F (CHR ''.'' # t)"
  using a
proof (induction a)
  case Nil
  then show ?case by simp
next
  case (Cons c a)
  show ?case
  proof (cases a)
    case Nil
    with Cons.prems show ?thesis by (simp add: not_tok_char_dot)
  next
    case (Cons d a')
    with Cons.prems Cons.IH have "concat (map F (plus_ends tok_char (a @ CHR ''.'' # t))) = F (CHR ''.'' # t)"
      by simp
    moreover from Cons Cons.prems have "F (a @ CHR ''.'' # t) = []" by (simp add: F)
    ultimately show ?thesis using Cons.prems by simp
  qed
qed

lemma run_seg_dot:
  assumes "list_all tok_char a" "a \<noteq> []"
  shows "run (Cat (Plus tok_char) (Cat (Lit ''.'') r)) (g, a @ CHR ''.'' # t) = run r (g, t)"
proof -
  have "concat (map (\<lambda>u. run (Cat (Lit ''.'') r) (g, u)) (plus_ends tok_char (a @ CHR ''.'' # t)))
        = run (Cat (Lit ''.'') r) (g, CHR ''.'' # t)"
    by (rule plus_ends_then_dot) (use assms in \<open>auto dest: tok_char_not_dot\<close>)
  then show ?thesis by (simp add: map_concat comp_def)
qed

lemma plus_ends_hd:
  "P c \<Longrightarrow> \<exists>ys. plus_ends P (c # s) = dropWhile P s # ys"
proof (induction s arbitrary: c)
  case Nil
  then show ?case by simp
next
  case (Cons d s)
  show ?case
  proof (cases "P d")
    case True
    from Cons.IH[OF True] obtain ys where "plus_ends P (d # s) = dropWhile P s # ys" by blast
    with Cons.prems True show ?thesis by simp
  next
    case False
    with Cons.prems show ?thesis by simp
  qed
qed

lemma dropWhile_all_append:
  "list_all P a \<Longrightarrow> dropWhile P (a @ r) = dropWhile P r"
  by (induction a) auto

lemma takeWhile_all_append:
  "list_all P a \<Longrightarrow> takeWhile P (a @ r) = a @ takeWhile P r"
  by (induction a) auto

lemma take_length_append: "take (length a) (a @ b) = a"
  by simp

lemma run_body:
  assumes "list_all tok_char s1" "s1 \<noteq> []" "list_all tok_char s2" "s2 \<noteq> []"
    "list_all tok_char s3" "s3 \<noteq> []"
  shows "\<exists>ys. run (Grp (Cat (Plus tok_char) (Cat (Lit ''.'')
              (Cat (Plus tok_char) (Cat (Lit ''.'') (Plus tok_char))))))
            (g, s1 @ ''.'' @ s2 @ ''.'' @ s3 @ rest)
         = (Some (s1 @ ''.'' @ s2 @ ''.'' @ s3 @ takeWhile tok_char rest),
            dropWhile tok_char rest) # ys"
proof -
  let ?S = "s1 @ ''.'' @ s2 @ ''.'' @ s3 @ rest"
  let ?body = "Cat (Plus tok_char) (Cat (Lit ''.'')
              (Cat (Plus tok_char) (Cat (Lit ''.'') (Plus tok_char))))"
  obtain c s3' where s3: "s3 = c # s3'" "tok_char c" "list_all tok_char s3'"
    using assms(5,6) by (cases s3) auto
  have "run ?body (g, ?S) = run (Cat (Plus tok_char) (Cat (Lit ''.'') (Plus tok_char)))
          (g, s2 @ CHR ''.'' # s3 @ rest)"
    using run_seg_dot[OF assms(1,2)] by simp
  also have "\<dots> = run (Plus tok_char) (g, s3 @ rest)"
    using run_seg_dot[OF assms(3,4)] by simp
  finally have b: "run ?body (g, ?S) = map (Pair g) (plus_ends tok_char (s3 @ rest))" by simp
  from plus_ends_hd[of tok_char c "s3' @ rest"] s3(2) obtain ys where
    "plus_ends tok_char (s3 @ rest) = dropWhile tok_char (s3' @ rest) # ys"
    using s3(1) by auto
  then have ys: "plus_ends tok_char (s3 @ rest) = dropWhile tok_char rest # ys"
    using s3(3) by (simp add: dropWhile_all_append)
  have len: "length ?S - length (dropWhile tok_char rest)
      = length (s1 @ ''.'' @ s2 @ ''.'' @ s3 @ takeWhile tok_char rest)"
  proof -
    have "length rest = length (takeWhile tok_char rest) + length (dropWhile tok_char rest)"
      by (metis length_append takeWhile_dropWhile_id)
    then show ?thesis by simp
  qed
  have split: "?S = (s1 @ ''.'' @ s2 @ ''.'' @ s3 @ takeWhile tok_char rest) @ dropWhile tok_char rest"
    by simp
  have "take (length ?S - length (dropWhile tok_char rest)) ?S
      = s1 @ ''.'' @ s2 @ ''.'' @ s3 @ takeWhile tok_char rest"
    unfolding len by (subst split) (rule take_length_append)
  with b ys show ?thesis by simp
qed

lemma run_lit_cls:
  "run (Cat (Lit w) (Cls P)) (g, s)
     = (if take (length w) s = w then run (Cls P) (g, drop (length w) s) else [])"
  by simp

lemma run_lit_cls_on_token:
  assumes a: "list_all tok_char a" and w: "CHR ''.'' \<notin> set w"
  shows "run (Cat (Lit w) (Cls is_space)) (g, a @ CHR ''.'' # t) = []"
proof (cases "take (length w) (a @ CHR ''.'' # t) = w")
  case False
  then show ?thesis by (simp only: run_lit_cls if_False)
next
  case True
  have len: "length w \<le> length a"
  proof (rule ccontr)
    assume "\<not> length w \<le> length a"
    then have "CHR ''.'' \<in> set (take (length w) (a @ CHR ''.'' # t))"
      by (cases "length w - length a") auto
    with True w show False by simp
  qed
  have "drop (length w) (a @ CHR ''.'' # t) = drop (length w) a @ CHR ''.'' # t"
    using len by simp
  moreover have "list_all tok_char (drop (length w) a)"
    using a by (auto simp: list_all_iff dest: in_set_dropD)
  ultimately have "run (Cls is_space) (g, drop (length w) (a @ CHR ''.'' # t)) = []"
    by (cases "drop (length w) a") (auto simp: not_space_dot tok_char_not_space)
  with True show ?thesis by (simp only: run_lit_cls if_True refl)
qed

lemma run_bearer_on_token:
  assumes "list_all tok_char a"
  shows "run (Cat (Lit ''Bearer'') (Cls is_space)) (g, a @ CHR ''.'' # t) = []"
  by (rule run_lit_cls_on_token[OF assms]) simp

lemma run_bearer_prefix:
  "is_space c \<Longrightarrow> run (Cat (Lit ''Bearer'') (Cls is_space)) (g, ''Bearer'' @ c # s) = [(g, s)]"
  by simp

lemma re_match_first:
  "run r (None, v) = (g, t) # ys \<Longrightarrow> re_match r v = Some g"
  by (simp add: re_match_def)

lemma re_match_three_segments:
  assumes seg: "list_all tok_char s1" "s1 \<noteq> []" "list_all tok_char s2" "s2 \<noteq> []"
    "list_all tok_char s3" "s3 \<noteq> []"
    and pre: "pre = [] \<or> (\<exists>c. is_space c \<and> pre = ''Bearer'' @ [c])"
  shows "re_match pattern (pre @ s1 @ ''.'' @ s2 @ ''.'' @ s3 @ rest)
         = Some (Some (s1 @ ''.'' @ s2 @ ''.'' @ s3 @ takeWhile tok_char rest))"
proof -
  let ?S = "s1 @ ''.'' @ s2 @ ''.'' @ s3 @ rest"
  let ?G = "Grp (Cat (Plus tok_char) (Cat (Lit ''.'')
              (Cat (Plus tok_char) (Cat (Lit ''.'') (Plus tok_char)))))"
  let ?B = "Cat (Lit ''Bearer'') (Cls is_space)"
  from run_body[OF seg, of None rest] obtain ys where
    G: "run ?G (None, ?S) = (Some (s1 @ ''.'' @ s2 @ ''.'' @ s3 @ takeWhile tok_char rest),
            dropWhile tok_char rest) # ys" by blast
  have S: "?S = s1 @ CHR ''.'' # (s2 @ ''.'' @ s3 @ rest)" by simp
  from pre show ?thesis
  proof
    assume "pre = []"
    moreover have "run ?B (None, ?S) = []"
      by (subst S) (rule run_bearer_on_token[OF seg(1)])
    ultimately have "run pattern (None, pre @ ?S) = run ?G (None, ?S)"
      unfolding pattern_def by (simp only: run.simps append_Nil map_append list.map concat.simps append_Nil2)
    with G show ?thesis by (auto intro: re_match_first)
  next
    assume "\<exists>c. is_space c \<and> pre = ''Bearer'' @ [c]"
    then obtain c where c: "is_space c" "pre = ''Bearer'' @ [c]" by blast
    have "run ?B (None, ''Bearer'' @ c # ?S) = [(None, ?S)]"
      by (rule run_bearer_prefix[OF c(1)])
    moreover have "pre @ ?S = ''Bearer'' @ c # ?S" using c(2) by simp
    ultimately have "run pattern (None, pre @ ?S)
        = run ?G (None, ?S) @ run ?G (None, ''Bearer'' @ c # ?S)"
      unfolding pattern_def by (simp only: run.simps append_Nil map_append list.map concat.simps append_Nil2 append_Cons)
    with G show ?thesis by (auto intro: re_match_first)
  qed
qed

lemma fold_headers_lookup:
  "fold (\<lambda>(k, v) m. m(lower k \<mapsto> v)) hs m x = None
     \<longleftrightarrow> m x = None \<and> x \<notin> set (map (lower \<circ> fst) hs)"
  by (induction hs arbitrary: m) (auto split: prod.splits)

lemma normalized_headers_None:
  "normalized_headers ev x = None \<longleftrightarrow> x \<notin> set (map (lower \<circ> fst) (headers ev))"
  by (simp add: normalized_headers_def fold_headers_lookup)

section \<open>Lemmas about the validator and the handler\<close>

text \<open>Once the key is resolved, the result is that of \<^verbatim>\<open>jwt.decode\<close> under the \<^verbatim>\<open>except\<close>.\<close>

lemma key_resolved_validates:
  assumes "key_resolved w authority tok key"
  shows "snd (id_token_is_valid w tok audience authority)
         = except_PyJWTError
             (jwt_decode w tok key [''RS256''] authority audience decode_options_all)"
  using assms
  by (auto simp: key_resolved_def id_token_is_valid_def try_body_def Let_def
           split: sum.splits)

text \<open>After a successful extraction the branch \<^verbatim>\<open>if not id_token\<close> is never taken.\<close>

lemma handler_after_extraction:
  assumes "get_id_token ev = Inr (Some tok)"
  shows "lambda_handler w ev =
     (case snd (id_token_is_valid w tok (environ_get w ''AUDIENCE'' [])
                  (environ_get w ''AUTHORITY'' [])) of
        Inl e \<Rightarrow> Inl e
      | Inr None \<Rightarrow> Inr (generate_policy ''Deny'' (methodArn ev) default_username)
      | Inr (Some jwt_data) \<Rightarrow>
          if jwt_data = []
          then Inr (generate_policy ''Deny'' (methodArn ev) default_username)
          else
            (case map_of jwt_data ''sub'' of
               None \<Rightarrow> Inl (KeyError ''sub'')
             | Some sub \<Rightarrow>
                 Inr ((generate_policy ''Allow'' (methodArn ev) sub)
                        \<lparr> policy_context := Some [(''username'', sub)] \<rparr>)))"
proof -
  from get_id_token_nonempty[OF assms] have "tok \<noteq> []" by simp
  with assms show ?thesis by (simp add: lambda_handler_def Let_def)
qed

text \<open>A validation that returns claims got them from \<^verbatim>\<open>jwt.decode\<close> with the one algorithm.\<close>

lemma validation_result_cases:
  "snd (id_token_is_valid w tok audience authority) = Inr (Some claims) \<Longrightarrow>
   \<exists>key. jwt_decode w tok key [''RS256''] authority audience decode_options_all = Inr claims"
  by (auto simp: id_token_is_valid_def try_body_def except_PyJWTError_def Let_def
           split: if_splits sum.splits exn.splits)

lemma example_token:
  "get_id_token (example_event ''Bearer aaa.bbb.ccc'') = Inr (Some ''aaa.bbb.ccc'')"
  by code_simp

lemma example_key_resolved:
  "key_resolved (example_world alg 200 (Inr example_metadata) decoded)
     (environ_get (example_world alg 200 (Inr example_metadata) decoded) ''AUTHORITY'' [])
     ''aaa.bbb.ccc'' ''key-1''"
  by (simp add: key_resolved_def example_world_def example_metadata_def environ_get_def
        discovery_url_def cert_or_true_def make_ssl_context_def)

section \<open>The claims\<close>

subsection \<open>Token extraction\<close>

text \<open>
  Claim C1. A request whose header names hold no \<^verbatim>\<open>authorization\<close> under case-insensitive
  comparison should get a Deny decision. The code does not do that: \<^verbatim>\<open>get_id_token\<close>
  raises \<^verbatim>\<open>ValueError("Missing authorization token.")\<close>, \<^verbatim>\<open>lambda_handler\<close> calls it outside
  any \<^verbatim>\<open>try\<close>, and so the handler raises the same exception for every such request and
  returns no decision. The handler's own branch \<^verbatim>\<open>if not id_token\<close>, which logs
  "Missing id_token in request. Denying access." and returns Deny, is never reached for a
  missing header.
\<close>

theorem missing_authorization_raises:
  assumes "''authorization'' \<notin> set (map (lower \<circ> fst) (headers ev))"
  shows "lambda_handler w ev = Inl (ValueError ''Missing authorization token.'')"
proof -
  from assms have "normalized_headers ev ''authorization'' = None"
    by (simp add: normalized_headers_None)
  then show ?thesis by (simp add: lambda_handler_def get_id_token_def)
qed

theorem missing_authorization_raises_witness:
  "lambda_handler (example_world ''RS256'' 200 (Inr example_metadata) (Inr example_claims))
     \<lparr> headers = [(''Host'', ''api.example'')], methodArn = ''arn'' \<rparr>
   = Inl (ValueError ''Missing authorization token.'')"
proof -
  have "''authorization'' \<notin> set (map (lower \<circ> fst)
          (headers \<lparr> headers = [(''Host'', ''api.example'')], methodArn = ''arn'' \<rparr>))"
    by code_simp
  then show ?thesis by (rule missing_authorization_raises)
qed

text \<open>
  Claim C2. A request whose \<^verbatim>\<open>authorization\<close> value the pattern does not match should get a
  Deny decision. The code does not do that either, by the same missing \<^verbatim>\<open>try\<close> as in C1:
  \<^verbatim>\<open>get_id_token\<close> raises \<^verbatim>\<open>ValueError("Invalid authorization header format.")\<close> and the
  handler lets it through, for every such request.
\<close>

theorem malformed_authorization_raises:
  assumes "normalized_headers ev ''authorization'' = Some v"
    and "re_match pattern v = None"
  shows "lambda_handler w ev = Inl (ValueError ''Invalid authorization header format.'')"
  using assms by (simp add: lambda_handler_def get_id_token_def)

theorem malformed_authorization_raises_witness:
  "lambda_handler (example_world ''RS256'' 200 (Inr example_metadata) (Inr example_claims))
     (example_event ''Bearer abc'')
   = Inl (ValueError ''Invalid authorization header format.'')"
proof -
  have a: "normalized_headers (example_event ''Bearer abc'') ''authorization''
      = Some ''Bearer abc''"
    by code_simp
  have b: "re_match pattern ''Bearer abc'' = None"
    by code_simp
  from a b show ?thesis by (rule malformed_authorization_raises)
qed

text \<open>
  Claim C10. The match is anchored at the start of the header value only. When the value
  is an optional \<^verbatim>\<open>Bearer\<close> and one whitespace character, then three non-empty segments of
  token characters separated by single dots, then anything at all (\<open>rest\<close>), extraction
  succeeds and returns the three segments and nothing of what follows them: the third
  segment runs on through the token characters at the head of \<open>rest\<close>, as a dot-separated
  segment does, and stops at the first other character (a dot that starts a fourth
  segment, for instance). Nothing is rejected as malformed.
\<close>

theorem extraction_anchored_at_start_only:
  assumes "normalized_headers ev ''authorization''
             = Some (pre @ s1 @ ''.'' @ s2 @ ''.'' @ s3 @ rest)"
    and "pre = [] \<or> (\<exists>c. is_space c \<and> pre = ''Bearer'' @ [c])"
    and "list_all tok_char s1" "s1 \<noteq> []"
    and "list_all tok_char s2" "s2 \<noteq> []"
    and "list_all tok_char s3" "s3 \<noteq> []"
  shows "get_id_token ev = Inr (Some (s1 @ ''.'' @ s2 @ ''.'' @ s3 @ takeWhile tok_char rest))"
  using assms(1) re_match_three_segments[OF assms(3-8) assms(2), of rest]
  by (simp add: get_id_token_def)

theorem extraction_anchored_at_start_only_witness:
  "get_id_token (example_event ''Bearer aaa.bbb.ccc.ddd'') = Inr (Some ''aaa.bbb.ccc'')"
proof -
  have a: "normalized_headers (example_event ''Bearer aaa.bbb.ccc.ddd'') ''authorization''
      = Some (''Bearer '' @ ''aaa'' @ ''.'' @ ''bbb'' @ ''.'' @ ''ccc'' @ ''.ddd'')"
    by code_simp
  have b: "''Bearer '' = [] \<or> (\<exists>c. is_space c \<and> ''Bearer '' = ''Bearer'' @ [c])"
    by (simp add: is_space_def)
  have c: "list_all tok_char ''aaa''" "list_all tok_char ''bbb''" "list_all tok_char ''ccc''"
    by code_simp+
  have d: "''aaa'' \<noteq> []" "''bbb'' \<noteq> []" "''ccc'' \<noteq> []" by simp_all
  have e: "takeWhile tok_char ''.ddd'' = []" by code_simp
  from extraction_anchored_at_start_only[OF a b c(1) d(1) c(2) d(2) c(3) d(3)]
  have "get_id_token (example_event ''Bearer aaa.bbb.ccc.ddd'')
      = Inr (Some (''aaa'' @ ''.'' @ ''bbb'' @ ''.'' @ ''ccc'' @ []))"
    by (simp only: e)
  then show ?thesis by simp
qed

subsection \<open>Validation and the decision\<close>

text \<open>
  Claim C4. When the request carries a token that extraction accepts, discovery and key
  resolution succeed for it, and \<^verbatim>\<open>jwt.decode\<close> (signature under the resolved key, and the
  claims \<^verbatim>\<open>iss\<close>, \<^verbatim>\<open>aud\<close>, \<^verbatim>\<open>exp\<close>, \<^verbatim>\<open>nbf\<close>, \<^verbatim>\<open>iat\<close> against the configured authority and
  audience) returns the claim set, then the handler returns the Allow decision: its
  \<^verbatim>\<open>principalId\<close> is the token's \<^verbatim>\<open>sub\<close> claim, its \<^verbatim>\<open>context.username\<close> the same value, its
  policy document has version \<^verbatim>\<open>2012-10-17\<close> and the single statement that allows
  \<^verbatim>\<open>execute-api:Invoke\<close> on the request's \<^verbatim>\<open>methodArn\<close>.
\<close>

theorem valid_token_allows:
  assumes "get_id_token ev = Inr (Some tok)"
    and "key_resolved w (environ_get w ''AUTHORITY'' []) tok key"
    and "jwt_decode w tok key [''RS256''] (environ_get w ''AUTHORITY'' [])
           (environ_get w ''AUDIENCE'' []) decode_options_all = Inr claims"
    and "map_of claims ''sub'' = Some sub"
  shows "lambda_handler w ev =
           Inr \<lparr> principalId = sub,
                 policyDocument =
                   \<lparr> Version = ''2012-10-17'',
                     Statement = [\<lparr> Action = ''execute-api:Invoke'', Effect = ''Allow'',
                                    Resource = methodArn ev \<rparr>] \<rparr>,
                 policy_context = Some [(''username'', sub)] \<rparr>"
proof -
  from assms(4) have ne: "claims \<noteq> []" by auto
  have "snd (id_token_is_valid w tok (environ_get w ''AUDIENCE'' [])
               (environ_get w ''AUTHORITY'' [])) = Inr (Some claims)"
    by (simp add: key_resolved_validates[OF assms(2)] assms(3) except_PyJWTError_def)
  with ne assms(4) show ?thesis
    by (simp add: handler_after_extraction[OF assms(1)] generate_policy_def)
qed

theorem valid_token_allows_witness:
  "lambda_handler (example_world ''RS256'' 200 (Inr example_metadata) (Inr example_claims))
     (example_event ''Bearer aaa.bbb.ccc'')
   = Inr \<lparr> principalId = JStr ''user-123'',
           policyDocument =
             \<lparr> Version = ''2012-10-17'',
               Statement = [\<lparr> Action = ''execute-api:Invoke'', Effect = ''Allow'',
                 Resource = ''arn:aws:execute-api:us-east-1:123456789012:abcdef/prod/GET/resource'' \<rparr>] \<rparr>,
           policy_context = Some [(''username'', JStr ''user-123'')] \<rparr>"
proof -
  let ?w = "example_world ''RS256'' 200 (Inr example_metadata) (Inr example_claims)"
  have d: "jwt_decode ?w ''aaa.bbb.ccc'' ''key-1'' [''RS256''] (environ_get ?w ''AUTHORITY'' [])
           (environ_get ?w ''AUDIENCE'' []) decode_options_all = Inr example_claims"
    by (simp add: example_world_def decode_options_all_def)
  have s: "map_of example_claims ''sub'' = Some (JStr ''user-123'')"
    by (simp add: example_claims_def)
  from valid_token_allows[OF example_token example_key_resolved d s]
  show ?thesis by (simp add: example_event_def)
qed

text \<open>
  Claim C9. When the token passes signature and claim verification (so \<^verbatim>\<open>jwt.decode\<close>
  returns its payload, which then holds at least the verified \<^verbatim>\<open>iss\<close> and \<^verbatim>\<open>aud\<close> and is
  not the empty dict) but the payload has no \<^verbatim>\<open>sub\<close>, the handler returns neither Allow
  nor Deny: the lookup \<^verbatim>\<open>jwt_data["sub"]\<close> raises \<^verbatim>\<open>KeyError\<close>, which nothing catches.
\<close>

theorem missing_sub_raises:
  assumes "get_id_token ev = Inr (Some tok)"
    and "key_resolved w (environ_get w ''AUTHORITY'' []) tok key"
    and "jwt_decode w tok key [''RS256''] (environ_get w ''AUTHORITY'' [])
           (environ_get w ''AUDIENCE'' []) decode_options_all = Inr claims"
    and "claims \<noteq> []"
    and "map_of claims ''sub'' = None"
  shows "lambda_handler w ev = Inl (KeyError ''sub'')"
proof -
  have "snd (id_token_is_valid w tok (environ_get w ''AUDIENCE'' [])
               (environ_get w ''AUTHORITY'' [])) = Inr (Some claims)"
    by (simp add: key_resolved_validates[OF assms(2)] assms(3) except_PyJWTError_def)
  with assms(4,5) show ?thesis
    by (simp add: handler_after_extraction[OF assms(1)])
qed

theorem missing_sub_raises_witness:
  "lambda_handler
     (example_world ''RS256'' 200 (Inr example_metadata)
        (Inr [(''iss'', JStr ''https://idp.example''), (''aud'', JStr ''osml'')]))
     (example_event ''Bearer aaa.bbb.ccc'')
   = Inl (KeyError ''sub'')"
proof -
  let ?c = "[(''iss'', JStr ''https://idp.example''), (''aud'', JStr ''osml'')]"
  let ?w = "example_world ''RS256'' 200 (Inr example_metadata) (Inr ?c)"
  have d: "jwt_decode ?w ''aaa.bbb.ccc'' ''key-1'' [''RS256''] (environ_get ?w ''AUTHORITY'' [])
           (environ_get ?w ''AUDIENCE'' []) decode_options_all = Inr ?c"
    by (simp add: example_world_def decode_options_all_def)
  have n: "?c \<noteq> []" by simp
  have s: "map_of ?c ''sub'' = None" by simp
  from missing_sub_raises[OF example_token example_key_resolved d n s]
  show ?thesis .
qed

text \<open>
  Claim C7. The code asks \<^verbatim>\<open>jwt.decode\<close> to verify the signature and passes
  \<^verbatim>\<open>algorithms=["RS256"]\<close> and nothing else. Given that the library honours that allow-list
  when it verifies a signature, a token whose header declares any algorithm other than
  \<^verbatim>\<open>RS256\<close> never validates, whatever \<^verbatim>\<open>jwt.decode\<close> would do with it under its own
  algorithm; every decision the handler returns for it is the Deny decision (effect
  \<^verbatim>\<open>Deny\<close>, principal \<^verbatim>\<open>username\<close>, no context); and when discovery and key resolution
  succeed for it, the handler does return that decision.
\<close>

theorem other_algorithm_denied:
  assumes "honours_algorithms declared_alg w"
    and "get_id_token ev = Inr (Some tok)"
    and "declared_alg tok = Some a"
    and "a \<noteq> ''RS256''"
  shows "(\<forall>claims. snd (id_token_is_valid w tok (environ_get w ''AUDIENCE'' [])
                       (environ_get w ''AUTHORITY'' [])) \<noteq> Inr (Some claims))
       \<and> (\<forall>p. lambda_handler w ev = Inr p \<longrightarrow>
            p = \<lparr> principalId = JStr ''username'',
                  policyDocument =
                    \<lparr> Version = ''2012-10-17'',
                      Statement = [\<lparr> Action = ''execute-api:Invoke'', Effect = ''Deny'',
                                     Resource = methodArn ev \<rparr>] \<rparr>,
                  policy_context = None \<rparr>)
       \<and> (key_resolved w (environ_get w ''AUTHORITY'' []) tok key \<longrightarrow>
            lambda_handler w ev =
              Inr \<lparr> principalId = JStr ''username'',
                    policyDocument =
                      \<lparr> Version = ''2012-10-17'',
                        Statement = [\<lparr> Action = ''execute-api:Invoke'', Effect = ''Deny'',
                                       Resource = methodArn ev \<rparr>] \<rparr>,
                    policy_context = None \<rparr>)"
proof -
  let ?v = "snd (id_token_is_valid w tok (environ_get w ''AUDIENCE'' [])
                   (environ_get w ''AUTHORITY'' []))"
  let ?deny = "\<lparr> principalId = JStr ''username'',
                 policyDocument =
                   \<lparr> Version = ''2012-10-17'',
                     Statement = [\<lparr> Action = ''execute-api:Invoke'', Effect = ''Deny'',
                                    Resource = methodArn ev \<rparr>] \<rparr>,
                 policy_context = None \<rparr>"
  have on: "verify_signature decode_options_all"
    by (simp add: decode_options_all_def)
  have not_allowed: "a \<notin> set [''RS256'']"
    using assms(4) by simp
  have refused: "\<exists>m. jwt_decode w tok k [''RS256''] iss aud decode_options_all
                      = Inl (PyJWTError m)" for k iss aud
    using assms(1) on assms(3) not_allowed unfolding honours_algorithms_def by blast
  have first: "\<forall>claims. ?v \<noteq> Inr (Some claims)"
  proof (intro allI notI)
    fix claims
    assume "?v = Inr (Some claims)"
    from validation_result_cases[OF this] obtain k where
      "jwt_decode w tok k [''RS256''] (environ_get w ''AUTHORITY'' [])
         (environ_get w ''AUDIENCE'' []) decode_options_all = Inr claims" by blast
    moreover from refused[of k "environ_get w ''AUTHORITY'' []" "environ_get w ''AUDIENCE'' []"]
    obtain m where
      "jwt_decode w tok k [''RS256''] (environ_get w ''AUTHORITY'' [])
         (environ_get w ''AUDIENCE'' []) decode_options_all = Inl (PyJWTError m)" by blast
    ultimately show False by simp
  qed
  have deny: "generate_policy ''Deny'' (methodArn ev) default_username = ?deny"
    by (simp add: generate_policy_def default_username_def)
  have second: "\<forall>p. lambda_handler w ev = Inr p \<longrightarrow> p = ?deny"
  proof (intro allI impI)
    fix p
    assume r: "lambda_handler w ev = Inr p"
    show "p = ?deny"
    proof (cases ?v)
      case (Inl e)
      with r show ?thesis by (simp add: handler_after_extraction[OF assms(2)])
    next
      case (Inr d)
      with first have "d = None" by (cases d) auto
      with Inr r deny show ?thesis by (simp add: handler_after_extraction[OF assms(2)])
    qed
  qed
  have third: "lambda_handler w ev = Inr ?deny"
    if kr: "key_resolved w (environ_get w ''AUTHORITY'' []) tok key"
  proof -
    from refused obtain m where
      "jwt_decode w tok key [''RS256''] (environ_get w ''AUTHORITY'' [])
         (environ_get w ''AUDIENCE'' []) decode_options_all = Inl (PyJWTError m)" by blast
    then have "?v = Inr None"
      by (simp add: key_resolved_validates[OF kr] except_PyJWTError_def)
    with deny show ?thesis by (simp add: handler_after_extraction[OF assms(2)])
  qed
  from first second third show ?thesis by blast
qed

theorem other_algorithm_denied_witness:
  "lambda_handler (example_world ''HS256'' 200 (Inr example_metadata) (Inr example_claims))
     (example_event ''Bearer aaa.bbb.ccc'')
   = Inr \<lparr> principalId = JStr ''username'',
           policyDocument =
             \<lparr> Version = ''2012-10-17'',
               Statement = [\<lparr> Action = ''execute-api:Invoke'', Effect = ''Deny'',
                 Resource = ''arn:aws:execute-api:us-east-1:123456789012:abcdef/prod/GET/resource'' \<rparr>] \<rparr>,
           policy_context = None \<rparr>"
proof -
  let ?w = "example_world ''HS256'' 200 (Inr example_metadata) (Inr example_claims)"
  have h: "honours_algorithms (\<lambda>tok. Some ''HS256'') ?w"
    unfolding honours_algorithms_def by (auto simp: example_world_def)
  have a: "(\<lambda>tok. Some ''HS256'') ''aaa.bbb.ccc'' = Some ''HS256''" by simp
  have b: "''HS256'' \<noteq> ''RS256''" by simp
  have m: "methodArn (example_event ''Bearer aaa.bbb.ccc'')
      = ''arn:aws:execute-api:us-east-1:123456789012:abcdef/prod/GET/resource''"
    by (simp add: example_event_def)
  note t = other_algorithm_denied[OF h example_token a b, of "''key-1''"]
  from t[THEN conjunct2, THEN conjunct2, THEN mp, OF example_key_resolved]
  show ?thesis unfolding m .
qed

subsection \<open>Discovery\<close>

text \<open>
  Claim C6. When the discovery endpoint answers the request of the handler with a status
  other than 200, the handler raises nothing and returns the Deny decision, whatever token
  extraction gave: the principal is \<^verbatim>\<open>username\<close>, the one statement has the effect \<^verbatim>\<open>Deny\<close>
  on the request's \<^verbatim>\<open>methodArn\<close>, and there is no context.
\<close>

theorem discovery_non_200_denies:
  assumes "get_id_token ev = Inr tok"
    and "requests_get w (discovery_url (environ_get w ''AUTHORITY'' []))
           (cert_or_true (environ w ''SSL_CERT_FILE'')) 120 = Inr resp"
    and "status_code resp \<noteq> 200"
  shows "lambda_handler w ev =
           Inr \<lparr> principalId = JStr ''username'',
                 policyDocument =
                   \<lparr> Version = ''2012-10-17'',
                     Statement = [\<lparr> Action = ''execute-api:Invoke'', Effect = ''Deny'',
                                    Resource = methodArn ev \<rparr>] \<rparr>,
                 policy_context = None \<rparr>"
  using assms
  by (auto simp: lambda_handler_def id_token_is_valid_def generate_policy_def
        default_username_def Let_def split: option.splits)

theorem discovery_non_200_denies_witness:
  "lambda_handler (example_world ''RS256'' 503 (Inl JSONDecodeError) (Inr example_claims))
     (example_event ''Bearer aaa.bbb.ccc'')
   = Inr \<lparr> principalId = JStr ''username'',
           policyDocument =
             \<lparr> Version = ''2012-10-17'',
               Statement = [\<lparr> Action = ''execute-api:Invoke'', Effect = ''Deny'',
                 Resource = ''arn:aws:execute-api:us-east-1:123456789012:abcdef/prod/GET/resource'' \<rparr>] \<rparr>,
           policy_context = None \<rparr>"
proof -
  let ?w = "example_world ''RS256'' 503 (Inl JSONDecodeError) (Inr example_claims)"
  let ?resp = "\<lparr> status_code = 503, content = [], json = Inl JSONDecodeError \<rparr>"
  have r: "requests_get ?w (discovery_url (environ_get ?w ''AUTHORITY'' []))
           (cert_or_true (environ ?w ''SSL_CERT_FILE'')) 120 = Inr ?resp"
    by (simp add: example_world_def environ_get_def discovery_url_def)
  have s: "status_code ?resp \<noteq> 200" by simp
  from discovery_non_200_denies[OF example_token r s]
  show ?thesis by (simp add: example_event_def)
qed

text \<open>
  Claim C5. A discovery answer of status 200 whose body does not parse, or parses to a
  dict without \<^verbatim>\<open>jwks_uri\<close>, should end in a Deny decision. The code does not do that:
  \<^verbatim>\<open>resp.json()\<close> stands before the \<^verbatim>\<open>try\<close>, and the \<^verbatim>\<open>KeyError\<close> of the missing key is not
  a \<^verbatim>\<open>PyJWTError\<close>, the only class the \<^verbatim>\<open>except\<close> catches; in both cases the exception
  leaves \<^verbatim>\<open>id_token_is_valid\<close> and the handler.
\<close>

theorem bad_discovery_body_raises:
  assumes "get_id_token ev = Inr (Some tok)"
    and "has_crypto w"
    and "requests_get w (discovery_url (environ_get w ''AUTHORITY'' []))
           (cert_or_true (environ w ''SSL_CERT_FILE'')) 120 = Inr resp"
    and "status_code resp = 200"
  shows "(json resp = Inl e \<longrightarrow> lambda_handler w ev = Inl e)
       \<and> (json resp = Inr (JObj kvs) \<and> map_of kvs ''jwks_uri'' = None
            \<and> make_ssl_context w (environ w ''SSL_CERT_FILE'') = Inr ctx
          \<longrightarrow> lambda_handler w ev = Inl (KeyError ''jwks_uri''))"
  using assms(2-4)
  by (auto simp: handler_after_extraction[OF assms(1)] id_token_is_valid_def Let_def
        try_body_def except_PyJWTError_def)

theorem bad_discovery_body_raises_witness:
  "lambda_handler (example_world ''RS256'' 200 (Inl JSONDecodeError) (Inr example_claims))
     (example_event ''Bearer aaa.bbb.ccc'')
   = Inl JSONDecodeError
   \<and> lambda_handler
       (example_world ''RS256'' 200 (Inr (JObj [(''issuer'', JStr ''https://idp.example'')]))
          (Inr example_claims))
       (example_event ''Bearer aaa.bbb.ccc'')
   = Inl (KeyError ''jwks_uri'')"
proof -
  let ?w1 = "example_world ''RS256'' 200 (Inl JSONDecodeError) (Inr example_claims)"
  let ?r1 = "\<lparr> status_code = 200, content = [], json = Inl JSONDecodeError \<rparr>"
  let ?m = "[(''issuer'', JStr ''https://idp.example'')]"
  let ?w2 = "example_world ''RS256'' 200 (Inr (JObj ?m)) (Inr example_claims)"
  let ?r2 = "\<lparr> status_code = 200, content = [], json = Inr (JObj ?m) \<rparr>"
  have c1: "has_crypto ?w1" and c2: "has_crypto ?w2" by (simp_all add: example_world_def)
  have g1: "requests_get ?w1 (discovery_url (environ_get ?w1 ''AUTHORITY'' []))
           (cert_or_true (environ ?w1 ''SSL_CERT_FILE'')) 120 = Inr ?r1"
    by (simp add: example_world_def environ_get_def discovery_url_def)
  have g2: "requests_get ?w2 (discovery_url (environ_get ?w2 ''AUTHORITY'' []))
           (cert_or_true (environ ?w2 ''SSL_CERT_FILE'')) 120 = Inr ?r2"
    by (simp add: example_world_def environ_get_def discovery_url_def)
  have s1: "status_code ?r1 = 200" and s2: "status_code ?r2 = 200" by simp_all
  have x: "make_ssl_context ?w2 (environ ?w2 ''SSL_CERT_FILE'')
      = Inr \<lparr> verify_locations = None \<rparr>"
    by (simp add: example_world_def make_ssl_context_def)
  from bad_discovery_body_raises[OF example_token c1 g1 s1, of JSONDecodeError]
  have "lambda_handler ?w1 (example_event ''Bearer aaa.bbb.ccc'') = Inl JSONDecodeError"
    by simp
  moreover from bad_discovery_body_raises[OF example_token c2 g2 s2, of _ ?m] x
  have "lambda_handler ?w2 (example_event ''Bearer aaa.bbb.ccc'') = Inl (KeyError ''jwks_uri'')"
    by simp
  ultimately show ?thesis by simp
qed

subsection \<open>The Deny decision\<close>

text \<open>
  Claim C8. Every Deny decision the handler returns is the same but for the resource:
  its \<^verbatim>\<open>principalId\<close> is the placeholder \<^verbatim>\<open>"username"\<close> (not empty), it has no \<^verbatim>\<open>context\<close>,
  and nothing in it comes from the token; the request's \<^verbatim>\<open>methodArn\<close> is all it depends
  on.
\<close>

theorem deny_decision_is_fixed:
  assumes "lambda_handler w ev = Inr p"
    and "map Effect (Statement (policyDocument p)) = [''Deny'']"
  shows "p = \<lparr> principalId = JStr ''username'',
               policyDocument =
                 \<lparr> Version = ''2012-10-17'',
                   Statement = [\<lparr> Action = ''execute-api:Invoke'', Effect = ''Deny'',
                                  Resource = methodArn ev \<rparr>] \<rparr>,
               policy_context = None \<rparr>"
  using assms
  by (auto simp: lambda_handler_def generate_policy_def default_username_def Let_def
           split: sum.splits option.splits if_splits)

theorem deny_decision_is_fixed_witness:
  "\<exists>p. lambda_handler (example_world ''RS256'' 503 (Inl JSONDecodeError) (Inr example_claims))
          (example_event ''Bearer aaa.bbb.ccc'') = Inr p
      \<and> map Effect (Statement (policyDocument p)) = [''Deny'']
      \<and> principalId p = JStr ''username'' \<and> policy_context p = None"
proof -
  let ?w = "example_world ''RS256'' 503 (Inl JSONDecodeError) (Inr example_claims)"
  let ?e = "example_event ''Bearer aaa.bbb.ccc''"
  let ?p = "generate_policy ''Deny'' (methodArn ?e) default_username"
  have r: "lambda_handler ?w ?e = Inr ?p"
    by (simp add: lambda_handler_def example_token id_token_is_valid_def example_world_def
          environ_get_def discovery_url_def Let_def)
  have e: "map Effect (Statement (policyDocument ?p)) = [''Deny'']"
    by (simp add: generate_policy_def)
  from deny_decision_is_fixed[OF r e] have "principalId ?p = JStr ''username''"
    and "policy_context ?p = None" by simp_all
  with r e have "lambda_handler ?w ?e = Inr ?p
      \<and> map Effect (Statement (policyDocument ?p)) = [''Deny'']
      \<and> principalId ?p = JStr ''username'' \<and> policy_context ?p = None"
    by (intro conjI)
  then show ?thesis by (rule exI)
qed

subsection \<open>Network fetches\<close>

text \<open>
  Claim C3, as amended. Nothing caches the discovery metadata: every validation that
  has crypto support fetches the discovery URL exactly once with \<^verbatim>\<open>requests.get\<close>, so two
  validations against the same authority fetch it twice between them, however close in
  time they are. (The claim said at most once in total; the counterexample below shows
  two.)
\<close>

theorem discovery_fetched_every_time:
  assumes "has_crypto w1" and "has_crypto w2"
  shows "fst (id_token_is_valid w1 tok1 audience authority) = [discovery_url authority]
       \<and> fetches (discovery_url authority)
           (fst (id_token_is_valid w1 tok1 audience authority)
            @ fst (id_token_is_valid w2 tok2 audience authority)) = 2"
  using assms by (simp add: id_token_is_valid_def fetches_def Let_def)

theorem discovery_fetched_every_time_witness:
  "fetches (discovery_url ''https://idp.example'')
     (fst (id_token_is_valid
             (example_world ''RS256'' 200 (Inr example_metadata) (Inr example_claims))
             ''aaa.bbb.ccc'' ''osml'' ''https://idp.example'')
      @ fst (id_token_is_valid
             (example_world ''RS256'' 200 (Inr example_metadata) (Inr example_claims))
             ''aaa.bbb.ccc'' ''osml'' ''https://idp.example'')) = 2"
proof -
  let ?w = "example_world ''RS256'' 200 (Inr example_metadata) (Inr example_claims)"
  have c: "has_crypto ?w" by (simp add: example_world_def)
  show ?thesis by (rule conjunct2[OF discovery_fetched_every_time[OF c c]])
qed

text \<open>
  Claim C3, as stated, fails: two validations of the same token against the same
  authority in the same world make two fetches of the discovery metadata, not at most one.
\<close>

theorem discovery_fetched_once_counterexample:
  "\<not> fetches (discovery_url ''https://idp.example'')
       (fst (id_token_is_valid
               (example_world ''RS256'' 200 (Inr example_metadata) (Inr example_claims))
               ''aaa.bbb.ccc'' ''osml'' ''https://idp.example'')
        @ fst (id_token_is_valid
               (example_world ''RS256'' 200 (Inr example_metadata) (Inr example_claims))
               ''aaa.bbb.ccc'' ''osml'' ''https://idp.example'')) \<le> 1"
  by (simp add: id_token_is_valid_def example_world_def fetches_def Let_def)

end
